theory Spec2Isabelle
  imports Complex_Main
begin

section \<open>Numbers of the host language\<close>

text \<open>
  The engine (\<^verbatim>\<open>src/assets/fluid-bg.ts\<close>) computes with the host language's
  \<^verbatim>\<open>number\<close> type. Its values are modelled as \<open>jsnum\<close>: the not-a-number value,
  the two infinities, and the finite values. Finite values are idealised as reals: rounding
  and overflow of the binary64 format are not modelled, and the two zeros are one value
  (a division by zero takes the zero as positive). What is modelled is what the source's
  control flow depends on: \<open>NaN\<close> is contagious and every comparison with it is false,
  and a division by zero gives an infinity or \<open>NaN\<close> instead of failing.
\<close>

datatype jsnum = NaN | PInf | NInf | Fin real

fun js_neg :: "jsnum \<Rightarrow> jsnum" where
  "js_neg NaN = NaN"
| "js_neg PInf = NInf"
| "js_neg NInf = PInf"
| "js_neg (Fin a) = Fin (- a)"

fun js_add :: "jsnum \<Rightarrow> jsnum \<Rightarrow> jsnum" where
  "js_add (Fin a) (Fin b) = Fin (a + b)"
| "js_add NaN _ = NaN"
| "js_add _ NaN = NaN"
| "js_add PInf NInf = NaN"
| "js_add NInf PInf = NaN"
| "js_add PInf _ = PInf"
| "js_add NInf _ = NInf"
| "js_add _ PInf = PInf"
| "js_add _ NInf = NInf"

text \<open>The sign of a value that is not \<open>NaN\<close>: \<open>Some True\<close> for a negative value,
  \<open>None\<close> for zero.\<close>

fun js_sign :: "jsnum \<Rightarrow> bool option" where
  "js_sign (Fin a) = (if a = 0 then None else Some (a < 0))"
| "js_sign PInf = Some False"
| "js_sign NInf = Some True"
| "js_sign NaN = None"

definition js_inf :: "bool \<Rightarrow> jsnum" where
  "js_inf negative = (if negative then NInf else PInf)"

fun js_mul :: "jsnum \<Rightarrow> jsnum \<Rightarrow> jsnum" where
  "js_mul (Fin a) (Fin b) = Fin (a * b)"
| "js_mul NaN _ = NaN"
| "js_mul _ NaN = NaN"
| "js_mul x y =
     (case (js_sign x, js_sign y) of
        (Some s, Some t) \<Rightarrow> js_inf (s \<noteq> t)
      | _ \<Rightarrow> NaN)"

fun js_div :: "jsnum \<Rightarrow> jsnum \<Rightarrow> jsnum" where
  "js_div (Fin a) (Fin b) =
     (if b \<noteq> 0 then Fin (a / b)
      else if 0 < a then PInf else if a < 0 then NInf else NaN)"
| "js_div NaN _ = NaN"
| "js_div _ NaN = NaN"
| "js_div (Fin a) _ = Fin 0"
| "js_div PInf (Fin b) = js_inf (b < 0)"
| "js_div NInf (Fin b) = js_inf (\<not> b < 0)"
| "js_div _ _ = NaN"

fun js_less :: "jsnum \<Rightarrow> jsnum \<Rightarrow> bool" where
  "js_less (Fin a) (Fin b) = (a < b)"
| "js_less NaN _ = False"
| "js_less _ NaN = False"
| "js_less NInf NInf = False"
| "js_less NInf _ = True"
| "js_less _ NInf = False"
| "js_less PInf _ = False"
| "js_less _ PInf = True"

instantiation jsnum :: "{zero, one, plus, minus, uminus, times, inverse, ord}"
begin

definition zero_jsnum :: jsnum where
  "zero_jsnum = Fin 0"

definition one_jsnum :: jsnum where
  "one_jsnum = Fin 1"

definition plus_jsnum :: "jsnum \<Rightarrow> jsnum \<Rightarrow> jsnum" where
  "plus_jsnum x y = js_add x y"

definition uminus_jsnum :: "jsnum \<Rightarrow> jsnum" where
  "uminus_jsnum x = js_neg x"

definition minus_jsnum :: "jsnum \<Rightarrow> jsnum \<Rightarrow> jsnum" where
  "minus_jsnum x y = js_add x (js_neg y)"

definition times_jsnum :: "jsnum \<Rightarrow> jsnum \<Rightarrow> jsnum" where
  "times_jsnum x y = js_mul x y"

definition divide_jsnum :: "jsnum \<Rightarrow> jsnum \<Rightarrow> jsnum" where
  "divide_jsnum x y = js_div x y"

definition inverse_jsnum :: "jsnum \<Rightarrow> jsnum" where
  "inverse_jsnum x = js_div (Fin 1) x"

definition less_jsnum :: "jsnum \<Rightarrow> jsnum \<Rightarrow> bool" where
  "less_jsnum x y = js_less x y"

definition less_eq_jsnum :: "jsnum \<Rightarrow> jsnum \<Rightarrow> bool" where
  "less_eq_jsnum x y = (js_less x y \<or> (x = y \<and> x \<noteq> NaN))"

instance ..

end

text \<open>\<^verbatim>\<open>Math.min\<close> and \<^verbatim>\<open>Math.max\<close> of two arguments: \<open>NaN\<close> when either is.\<close>

definition Math_min :: "jsnum \<Rightarrow> jsnum \<Rightarrow> jsnum" where
  "Math_min a b = (if a = NaN \<or> b = NaN then NaN else if b < a then b else a)"

definition Math_max :: "jsnum \<Rightarrow> jsnum \<Rightarrow> jsnum" where
  "Math_max a b = (if a = NaN \<or> b = NaN then NaN else if a < b then b else a)"

fun Math_round :: "jsnum \<Rightarrow> jsnum" where
  "Math_round (Fin a) = Fin (of_int \<lfloor>a + 1 / 2\<rfloor>)"
| "Math_round x = x"

fun Math_ceil :: "jsnum \<Rightarrow> jsnum" where
  "Math_ceil (Fin a) = Fin (of_int \<lceil>a\<rceil>)"
| "Math_ceil x = x"

fun Math_floor :: "jsnum \<Rightarrow> jsnum" where
  "Math_floor (Fin a) = Fin (of_int \<lfloor>a\<rfloor>)"
| "Math_floor x = x"

fun Math_sin :: "jsnum \<Rightarrow> jsnum" where
  "Math_sin (Fin a) = Fin (sin a)"
| "Math_sin _ = NaN"

fun Math_cos :: "jsnum \<Rightarrow> jsnum" where
  "Math_cos (Fin a) = Fin (cos a)"
| "Math_cos _ = NaN"

text \<open>\<^verbatim>\<open>Math.pow(x, 2)\<close>, the only power the source takes.\<close>

fun Math_pow2 :: "jsnum \<Rightarrow> jsnum" where
  "Math_pow2 (Fin a) = Fin (a * a)"
| "Math_pow2 NaN = NaN"
| "Math_pow2 _ = PInf"

text \<open>Truthiness of a number: \<open>0\<close> and \<open>NaN\<close> are falsy.\<close>

definition truthy :: "jsnum \<Rightarrow> bool" where
  "truthy x = (x \<noteq> Fin 0 \<and> x \<noteq> NaN)"

text \<open>\<^verbatim>\<open>a || 0\<close> on numbers.\<close>

definition or_zero :: "jsnum \<Rightarrow> jsnum" where
  "or_zero x = (if truthy x then x else Fin 0)"

definition clamp :: "jsnum \<Rightarrow> jsnum \<Rightarrow> jsnum \<Rightarrow> jsnum" where
  "clamp v a b = Math_min b (Math_max a v)"

definition lerp :: "jsnum \<Rightarrow> jsnum \<Rightarrow> jsnum \<Rightarrow> jsnum" where
  "lerp a b t = a + (b - a) * t"

definition TAU :: jsnum where
  "TAU = Fin (pi * 2)"

lemma Fin_arith [simp]:
  "Fin a + Fin b = Fin (a + b)"
  "Fin a - Fin b = Fin (a - b)"
  "Fin a * Fin b = Fin (a * b)"
  "- Fin a = Fin (- a)"
  "b \<noteq> 0 \<Longrightarrow> Fin a / Fin b = Fin (a / b)"
  "(Fin a < Fin b) = (a < b)"
  "(Fin a \<le> Fin b) = (a \<le> b)"
  by (auto simp: plus_jsnum_def minus_jsnum_def times_jsnum_def uminus_jsnum_def
      divide_jsnum_def less_jsnum_def less_eq_jsnum_def)

lemma NaN_arith [simp]:
  "NaN + x = NaN" "x + NaN = NaN" "NaN - x = NaN" "x - NaN = NaN"
  "NaN * x = NaN" "x * NaN = NaN" "NaN / x = NaN" "x / NaN = NaN"
  "\<not> NaN < x" "\<not> x < NaN" "\<not> NaN \<le> x" "\<not> x \<le> NaN"
  by (cases x; simp add: plus_jsnum_def minus_jsnum_def times_jsnum_def
      divide_jsnum_def less_jsnum_def less_eq_jsnum_def)+


section \<open>Strings and the host's number parser\<close>

text \<open>
  Strings are byte strings; the white space that \<^verbatim>\<open>trim\<close> and \<^verbatim>\<open>parseFloat\<close> skip is
  the ASCII white space (space, tab, line feed, vertical tab, form feed, carriage return).
\<close>

definition is_ws :: "char \<Rightarrow> bool" where
  "is_ws c = (c = CHR '' '' \<or> c = CHR 0x09 \<or> c = CHR 0x0A \<or> c = CHR 0x0B
     \<or> c = CHR 0x0C \<or> c = CHR 0x0D)"

definition trim :: "string \<Rightarrow> string" where
  "trim s = rev (dropWhile is_ws (rev (dropWhile is_ws s)))"

definition endsWith :: "string \<Rightarrow> string \<Rightarrow> bool" where
  "endsWith s suf = (length suf \<le> length s \<and> drop (length s - length suf) s = suf)"

definition is_digit :: "char \<Rightarrow> bool" where
  "is_digit c = (48 \<le> (of_char c :: nat) \<and> (of_char c :: nat) \<le> 57)"

definition digits_val :: "string \<Rightarrow> nat" where
  "digits_val ds = foldl (\<lambda>acc c. 10 * acc + (of_char c - 48)) 0 ds"

definition pow10 :: "int \<Rightarrow> real" where
  "pow10 e = (if 0 \<le> e then 10 ^ nat e else 1 / 10 ^ nat (- e))"

text \<open>The exponent part after the mantissa: an \<open>e\<close> or \<open>E\<close>, an optional sign and at
  least one digit. Anything else is not part of the number and the exponent is 0.\<close>

definition parse_exponent :: "string \<Rightarrow> int" where
  "parse_exponent r =
     (case r of
        [] \<Rightarrow> 0
      | c # r' \<Rightarrow>
          if c = CHR ''e'' \<or> c = CHR ''E'' then
            (let neg = (case r' of [] \<Rightarrow> False | q # _ \<Rightarrow> q = CHR ''-'');
                 signed = (case r' of [] \<Rightarrow> False | q # _ \<Rightarrow> q = CHR ''-'' \<or> q = CHR ''+'');
                 ds = takeWhile is_digit (if signed then tl r' else r')
             in if ds = [] then 0
                else if neg then - int (digits_val ds) else int (digits_val ds))
          else 0)"

text \<open>The longest prefix that is an unsigned decimal literal (\<open>Infinity\<close>, digits with an
  optional fraction, or a fraction alone, each with an optional exponent); \<open>NaN\<close> when
  no prefix is one.\<close>

definition parse_unsigned :: "string \<Rightarrow> jsnum" where
  "parse_unsigned u =
     (if take 8 u = ''Infinity'' then PInf
      else
        (let ip = takeWhile is_digit u;
             r1 = dropWhile is_digit u;
             has_dot = (case r1 of [] \<Rightarrow> False | c # _ \<Rightarrow> c = CHR ''.'');
             fp = (if has_dot then takeWhile is_digit (tl r1) else []);
             r2 = (if has_dot then dropWhile is_digit (tl r1) else r1)
         in if ip = [] \<and> fp = [] then NaN
            else Fin ((real (digits_val ip) + real (digits_val fp) / 10 ^ length fp)
                      * pow10 (parse_exponent r2))))"

definition parseFloat :: "string \<Rightarrow> jsnum" where
  "parseFloat s =
     (case dropWhile is_ws s of
        [] \<Rightarrow> NaN
      | c # r \<Rightarrow>
          if c = CHR ''-'' then - parse_unsigned r
          else if c = CHR ''+'' then parse_unsigned r
          else parse_unsigned (c # r))"

section \<open>Unit resolver\<close>

datatype jsval = Num jsnum | Str string

datatype axis = AxisX | AxisY | AxisVmax

record Dims =
  dims_w :: jsnum
  dims_h :: jsnum
  dims_vMax :: jsnum

definition unitToPx :: "jsval \<Rightarrow> Dims \<Rightarrow> axis \<Rightarrow> jsnum" where
  "unitToPx v dims ax =
     (case v of
        Num n \<Rightarrow> n
      | Str str \<Rightarrow>
          (let s = trim str in
           if endsWith s ''px'' then parseFloat s
           else if endsWith s ''%'' then
             (if ax = AxisY then dims_h dims else dims_w dims) * (parseFloat s / Fin 100)
           else if endsWith s ''vw'' then dims_w dims * (parseFloat s / Fin 100)
           else if endsWith s ''vh'' then dims_h dims * (parseFloat s / Fin 100)
           else if endsWith s ''vmax'' then dims_vMax dims * (parseFloat s / Fin 100)
           else (let n = parseFloat s in if n = NaN then Fin 0 else n)))"

record Point =
  pt_x :: jsnum
  pt_y :: jsnum

text \<open>A blob's centre is a pair of unit-typed scalars, or a function of the current
  dimensions; the function may return nothing, which the source reads as the origin.\<close>

datatype center = Fixed jsval jsval | Computed "Dims \<Rightarrow> Point option"

definition resolveCenter :: "center \<Rightarrow> Dims \<Rightarrow> Point" where
  "resolveCenter c dims =
     (case c of
        Computed f \<Rightarrow>
          (let p = (case f dims of None \<Rightarrow> \<lparr>pt_x = Fin 0, pt_y = Fin 0\<rparr> | Some q \<Rightarrow> q)
           in \<lparr>pt_x = pt_x p, pt_y = pt_y p\<rparr>)
      | Fixed cx cy \<Rightarrow> \<lparr>pt_x = unitToPx cx dims AxisX, pt_y = unitToPx cy dims AxisY\<rparr>)"


section \<open>Dirty-rectangle helpers\<close>

record Rect =
  rect_x :: jsnum
  rect_y :: jsnum
  rect_w :: jsnum
  rect_h :: jsnum

definition inflateRect :: "Rect \<Rightarrow> jsnum \<Rightarrow> Rect" where
  "inflateRect r pad =
     \<lparr>rect_x = rect_x r - pad, rect_y = rect_y r - pad,
      rect_w = rect_w r + pad * Fin 2, rect_h = rect_h r + pad * Fin 2\<rparr>"

definition intersect :: "Rect \<Rightarrow> Rect \<Rightarrow> bool" where
  "intersect a b =
     (\<not> (rect_x a + rect_w a \<le> rect_x b \<or> rect_x b + rect_w b \<le> rect_x a
         \<or> rect_y a + rect_h a \<le> rect_y b \<or> rect_y b + rect_h b \<le> rect_y a))"

definition union :: "Rect \<Rightarrow> Rect \<Rightarrow> Rect" where
  "union a b =
     (let x = Math_min (rect_x a) (rect_x b);
          y = Math_min (rect_y a) (rect_y b);
          r = Math_max (rect_x a + rect_w a) (rect_x b + rect_w b);
          btm = Math_max (rect_y a + rect_h a) (rect_y b + rect_h b)
      in \<lparr>rect_x = x, rect_y = y, rect_w = r - x, rect_h = btm - y\<rparr>)"

text \<open>\<^verbatim>\<open>work.splice(i, 1)\<close>: the list without its element at index \<open>i\<close>.\<close>

definition splice1 :: "'a list \<Rightarrow> nat \<Rightarrow> 'a list" where
  "splice1 work i = take i work @ drop (Suc i) work"

text \<open>The \<^verbatim>\<open>for\<close> loop of \<^verbatim>\<open>mergeRects\<close>: scan \<open>work\<close> from index \<open>i\<close>; a rectangle
  that meets \<open>cur\<close> is united with it and removed, and the scan starts again at 0
  (\<^verbatim>\<open>i = -1\<close> before the increment).\<close>

function merge_scan :: "Rect \<Rightarrow> Rect list \<Rightarrow> nat \<Rightarrow> Rect \<times> Rect list" where
  "merge_scan cur work i =
     (if i < length work then
        (if intersect cur (work ! i)
         then merge_scan (union cur (work ! i)) (splice1 work i) 0
         else merge_scan cur work (Suc i))
      else (cur, work))"
  by pat_completeness auto
termination
  by (relation "measures [\<lambda>(cur, work, i). length work, \<lambda>(cur, work, i). length work - i]")
    (auto simp: splice1_def)

declare merge_scan.simps [simp del]

lemma merge_scan_length: "length (snd (merge_scan cur work i)) \<le> length work"
proof (induction cur work i rule: merge_scan.induct)
  case (1 cur work i)
  show ?case
  proof (cases "i < length work")
    case False
    then show ?thesis by (simp add: merge_scan.simps [of cur work i])
  next
    case True
    show ?thesis
    proof (cases "intersect cur (work ! i)")
      case hit: True
      have "length (snd (merge_scan (union cur (work ! i)) (splice1 work i) 0))
              \<le> length (splice1 work i)"
        using "1.IH"(1) True hit by simp
      also have "\<dots> \<le> length work" by (simp add: splice1_def)
      finally show ?thesis using True hit by (simp add: merge_scan.simps [of cur work i])
    next
      case miss: False
      then show ?thesis using "1.IH"(2) True by (simp add: merge_scan.simps [of cur work i])
    qed
  qed
qed

text \<open>The \<^verbatim>\<open>while\<close> loop: pop the last rectangle, absorb what it meets, push the result.\<close>

function merge_loop :: "Rect list \<Rightarrow> Rect list \<Rightarrow> Rect list" where
  "merge_loop work out =
     (if work = [] then out
      else (let res = merge_scan (last work) (butlast work) 0
            in merge_loop (snd res) (out @ [fst res])))"
  by pat_completeness auto
termination
proof (relation "measure (\<lambda>(work, out). length work)")
  show "wf (measure (\<lambda>(work, out). length work))" by simp
next
  fix work out :: "Rect list" and res
  assume ne: "work \<noteq> []" and res: "res = merge_scan (last work) (butlast work) 0"
  have "length (snd res) \<le> length (butlast work)"
    unfolding res by (rule merge_scan_length)
  also have "\<dots> < length work" using ne by simp
  finally show "((snd res, out @ [fst res]), (work, out)) \<in> measure (\<lambda>(work, out). length work)"
    by simp
qed

declare merge_loop.simps [simp del]

definition mergeRects :: "Rect list \<Rightarrow> jsnum \<Rightarrow> Rect list" where
  "mergeRects rects tolerance =
     (if length rects \<le> 1 then rects
      else map (\<lambda>r. inflateRect r (- tolerance))
             (merge_loop (map (\<lambda>r. inflateRect r tolerance) rects) []))"


section \<open>Blobs and the engine's state\<close>

record Layer =
  color :: "jsnum \<times> jsnum \<times> jsnum"
  centerAlpha :: "jsnum option"
  midAlpha :: "jsnum option"
  edgeAlpha :: "jsnum option"

text \<open>The configuration a caller passes: an absent optional field is \<open>None\<close>.\<close>

record DriftCfg =
  cfg_ax :: "jsnum option"
  cfg_ay :: "jsnum option"
  cfg_sx :: "jsnum option"
  cfg_sy :: "jsnum option"
  cfg_speed :: "jsnum option"

record BreathCfg =
  cfg_scale :: "(jsnum \<times> jsnum) option"
  cfg_bopacity :: "(jsnum \<times> jsnum) option"
  cfg_bspeed :: "jsnum option"
  cfg_phase :: "jsnum option"

text \<open>\<open>cfg_breath\<close> is \<open>None\<close> when the field is absent, \<open>Some None\<close> when it is
  \<^verbatim>\<open>null\<close>: \<^verbatim>\<open>updateBlob\<close> tells the two apart.\<close>

record BlobConfig =
  cfg_id :: "string option"
  cfg_diameter :: jsval
  cfg_center :: center
  cfg_layers :: "Layer list option"
  cfg_opacity :: "jsnum option"
  cfg_parallaxScale :: "jsnum option"
  cfg_drift :: "DriftCfg option"
  cfg_breath :: "BreathCfg option option"

text \<open>\<^verbatim>\<open>Partial<BlobConfig>\<close>: every field optional.\<close>

record BlobPatch =
  patch_diameter :: "jsval option"
  patch_center :: "center option"
  patch_layers :: "Layer list option"
  patch_opacity :: "jsnum option"
  patch_parallaxScale :: "jsnum option"
  patch_drift :: "DriftCfg option"
  patch_breath :: "BreathCfg option option"

record Drift =
  drift_ax :: jsnum
  drift_ay :: jsnum
  drift_sx :: jsnum
  drift_sy :: jsnum
  drift_speed :: jsnum

text \<open>The breathing parameters as the engine stores them: \<^verbatim>\<open>addBlob\<close> and
  \<^verbatim>\<open>updateBlob\<close>, the only writers, fill in all four fields.\<close>

record Breath =
  breath_scale :: "jsnum \<times> jsnum"
  breath_opacity :: "jsnum \<times> jsnum"
  breath_speed :: jsnum
  breath_phase :: jsnum

datatype EaseFn = EaseInOutQuad

fun apply_ease :: "EaseFn \<Rightarrow> jsnum \<Rightarrow> jsnum" where
  "apply_ease EaseInOutQuad t =
     (if t < Fin (1 / 2) then Fin 2 * t * t
      else Fin 1 - Math_pow2 (- Fin 2 * t + Fin 2) / Fin 2)"

text \<open>The table \<^verbatim>\<open>Easings\<close>.\<close>

definition Easings :: "string \<Rightarrow> EaseFn option" where
  "Easings name = (if name = ''easeInOutQuad'' then Some EaseInOutQuad else None)"

record InternalEase =
  ease_from :: Point
  ease_to :: Point
  ease_t :: jsnum
  ease_durMs :: jsnum
  ease_fn :: EaseFn

text \<open>One radial-gradient fill of a sprite: the colour, the circle's radius, the gradient's
  radius and the alpha at the stops 0, 0.38, 0.74 and 1.\<close>

record Fill =
  fill_color :: "jsnum \<times> jsnum \<times> jsnum"
  fill_r :: jsnum
  fill_grad_r :: jsnum
  fill_stops :: "(jsnum \<times> jsnum) list"

text \<open>A sprite is an offscreen canvas: its size in device pixels, the blur filter it was
  painted under, and the fills, composited with \<^verbatim>\<open>lighter\<close>. The model keeps the size as
  computed (the host converts it to an unsigned integer; the source computes a whole number
  whenever the size is finite).\<close>

record Sprite =
  sp_width :: jsnum
  sp_height :: jsnum
  sp_blur :: jsnum
  sp_fills :: "Fill list"

record BlobInternal =
  b_id :: string
  b_diameter :: jsval
  b_center :: center
  b_layers :: "Layer list"
  b_opacity :: jsnum
  b_parallaxScale :: jsnum
  b_drift :: Drift
  b_breath :: "Breath option"
  b_sprite :: "Sprite option"
  b_diamPx :: jsnum
  b_ease :: "InternalEase option"
  b_lastRect :: "Rect option"
  b_nextRect :: "Rect option"
  b_static :: bool

record State =
  st_w :: jsnum
  st_h :: jsnum
  st_vMax :: jsnum
  dpr :: jsnum
  alpha :: jsnum
  blurPx :: jsnum
  composite :: string
  parallaxVmax :: jsnum
  fpsCap :: jsnum
  st_px :: jsnum
  st_py :: jsnum
  st_tx :: jsnum
  st_ty :: jsnum
  running :: bool
  prefersReduce :: bool
  damagePaddingPx :: jsnum
  fullRedrawThreshold :: jsnum
  maxDirtyRects :: jsnum

text \<open>What has been drawn. The static layer holds the sprites drawn on it since it was
  last cleared. The output surface is the sequence of operations applied to it; an operation
  that reads the static layer records the layer's content at that moment.\<close>

datatype SpriteDraw = SpriteDraw Sprite Rect jsnum

datatype CanvasOp =
    ClearCanvas
  | DrawLayer "SpriteDraw list"
  | BlitLayer "SpriteDraw list" Rect Rect
  | DrawBlob string Sprite Rect jsnum string

text \<open>The engine instance. \<open>ctx\<close> and \<open>staticCtx\<close> say whether the drawing contexts
  are there (\<^verbatim>\<open>destroy\<close> sets them to \<^verbatim>\<open>null\<close>). The registry \<open>blobs\<close> is a map that
  iterates in insertion order, so it is an association list with distinct keys. The host's
  frame scheduler is the pair of \<open>host_next\<close>, the next handle it will give, and
  \<open>host_pending\<close>, the callbacks requested and not yet run.\<close>

record FluidBackground =
  ctx :: bool
  state :: State
  blobs :: "(string \<times> BlobInternal) list"
  idSeq :: nat
  staticCtx :: bool
  staticLayer :: "SpriteDraw list"
  needRebuildStatic :: bool
  raf :: nat
  lastFrameTs :: jsnum
  pointerEnabled :: bool
  canvas :: "CanvasOp list"
  host_next :: nat
  host_pending :: "nat list"

definition dims_of :: "State \<Rightarrow> Dims" where
  "dims_of s = \<lparr>dims_w = st_w s, dims_h = st_h s, dims_vMax = st_vMax s\<rparr>"

subsection \<open>The registry\<close>

fun map_set :: "'k \<Rightarrow> 'v \<Rightarrow> ('k \<times> 'v) list \<Rightarrow> ('k \<times> 'v) list" where
  "map_set k v [] = [(k, v)]"
| "map_set k v ((k', v') # m) = (if k' = k then (k, v) # m else (k', v') # map_set k v m)"

definition map_get :: "'k \<Rightarrow> ('k \<times> 'v) list \<Rightarrow> 'v option" where
  "map_get k m = map_of m k"

definition map_delete :: "'k \<Rightarrow> ('k \<times> 'v) list \<Rightarrow> ('k \<times> 'v) list" where
  "map_delete k m = filter (\<lambda>p. fst p \<noteq> k) m"


section \<open>Sprites, classification and the motion model\<close>

definition layer_fill :: "jsnum \<Rightarrow> Layer \<Rightarrow> Fill" where
  "layer_fill r layer =
     (let ca = (case centerAlpha layer of None \<Rightarrow> Fin (6 / 10) | Some a \<Rightarrow> a);
          ma = (case midAlpha layer of None \<Rightarrow> ca * Fin (44 / 100) | Some a \<Rightarrow> a);
          ea = (case edgeAlpha layer of None \<Rightarrow> Fin 0 | Some a \<Rightarrow> a)
      in \<lparr>fill_color = color layer, fill_r = r, fill_grad_r = r * Fin (95 / 100),
          fill_stops = [(Fin 0, ca), (Fin (38 / 100), ma), (Fin (74 / 100), ea), (Fin 1, Fin 0)]\<rparr>)"

definition rebuildSprite :: "State \<Rightarrow> BlobInternal \<Rightarrow> BlobInternal" where
  "rebuildSprite s b =
     (let dpx = unitToPx (b_diameter b) (dims_of s) AxisVmax;
          diam = Math_max (Fin 32) (Math_round dpx);
          pad = Math_ceil (blurPx s * dpr s) * Fin 2;
          size = Math_round (diam * dpr s) + pad;
          r = (diam * dpr s) / Fin 2
      in b\<lparr>b_diamPx := diam,
           b_sprite := Some \<lparr>sp_width = size, sp_height = size, sp_blur = blurPx s * dpr s,
                              sp_fills = map (layer_fill r) (b_layers b)\<rparr>\<rparr>)"

definition noParallax :: "BlobInternal \<Rightarrow> bool" where
  "noParallax b = (\<not> truthy (b_parallaxScale b) \<or> b_parallaxScale b = Fin 0)"

definition noBreath :: "BlobInternal \<Rightarrow> bool" where
  "noBreath b =
     (case b_breath b of
        None \<Rightarrow> True
      | Some br \<Rightarrow>
          (fst (breath_scale br) = Fin 1 \<and> snd (breath_scale br) = Fin 1) \<and>
          (fst (breath_opacity br) = Fin 1 \<and> snd (breath_opacity br) = Fin 1))"

definition noDrift :: "BlobInternal \<Rightarrow> bool" where
  "noDrift b =
     (let d = b_drift b
      in (\<not> truthy (drift_speed d) \<or> drift_speed d = Fin 0) \<and>
         (\<not> truthy (drift_ax d) \<and> \<not> truthy (drift_ay d) \<and>
          \<not> truthy (drift_sx d) \<and> \<not> truthy (drift_sy d)))"

definition staticCandidate :: "BlobInternal \<Rightarrow> bool" where
  "staticCandidate b = (noParallax b \<and> noBreath b \<and> noDrift b \<and> b_ease b = None)"

definition classifyBlobStatic :: "BlobInternal \<Rightarrow> BlobInternal" where
  "classifyBlobStatic b = b\<lparr>b_static := staticCandidate b\<rparr>"

record BlobNow =
  now_cx :: jsnum
  now_cy :: jsnum
  scaleMul :: jsnum
  alphaMul :: jsnum

definition driftX :: "Drift \<Rightarrow> jsnum \<Rightarrow> jsnum" where
  "driftX d tSec =
     Math_sin (tSec * TAU * drift_speed d + Fin (13 / 10)) * or_zero (drift_ax d)
     + Math_sin (tSec * TAU * (drift_speed d * Fin (5 / 10)) + Fin (7 / 10)) * or_zero (drift_sx d)"

definition driftY :: "Drift \<Rightarrow> jsnum \<Rightarrow> jsnum" where
  "driftY d tSec =
     Math_cos (tSec * TAU * drift_speed d + Fin (9 / 10)) * or_zero (drift_ay d)
     + Math_cos (tSec * TAU * (drift_speed d * Fin (6 / 10)) + Fin (4 / 10)) * or_zero (drift_sy d)"

text \<open>The centre before parallax and drift: the configured centre, or the point of the
  active easing transition.\<close>

definition ease_center :: "State \<Rightarrow> BlobInternal \<Rightarrow> Point" where
  "ease_center s b =
     (let base = resolveCenter (b_center b) (dims_of s)
      in case b_ease b of
           None \<Rightarrow> base
         | Some e \<Rightarrow>
             (let ev = apply_ease (ease_fn e) (ease_t e)
              in \<lparr>pt_x = lerp (pt_x (ease_from e)) (pt_x (ease_to e)) ev,
                  pt_y = lerp (pt_y (ease_from e)) (pt_y (ease_to e)) ev\<rparr>))"

text \<open>The breathing multipliers for scale and opacity.\<close>

definition breath_mul :: "BlobInternal \<Rightarrow> jsnum \<Rightarrow> jsnum \<times> jsnum" where
  "breath_mul b tSec =
     (case b_breath b of
        None \<Rightarrow> (Fin 1, Fin 1)
      | Some br \<Rightarrow>
          (let p = Math_sin (TAU * (breath_speed br * tSec + breath_phase br))
           in (lerp (fst (breath_scale br)) (snd (breath_scale br)) ((p + Fin 1) / Fin 2),
               lerp (fst (breath_opacity br)) (snd (breath_opacity br)) ((p + Fin 1) / Fin 2))))"

definition blobStateNow :: "State \<Rightarrow> BlobInternal \<Rightarrow> jsnum \<Rightarrow> jsnum \<Rightarrow> BlobNow" where
  "blobStateNow s b tSec parallaxPx =
     (let c = ease_center s b;
          dx = st_px s * parallaxPx * b_parallaxScale b;
          dy = st_py s * parallaxPx * b_parallaxScale b;
          d = b_drift b;
          sm = breath_mul b tSec
      in \<lparr>now_cx = pt_x c + dx + driftX d tSec, now_cy = pt_y c + dy + driftY d tSec,
          scaleMul = fst sm, alphaMul = snd sm\<rparr>)"

text \<open>The rectangle a blob occupies, from its state now and its sprite (which the callers
  have checked to be there).\<close>

definition blobRect :: "State \<Rightarrow> BlobInternal \<Rightarrow> Sprite \<Rightarrow> jsnum \<Rightarrow> jsnum \<Rightarrow> Rect" where
  "blobRect s b sprite tSec parallaxPx =
     (let st = blobStateNow s b tSec parallaxPx;
          sw = (sp_width sprite / dpr s) * scaleMul st;
          sh = (sp_height sprite / dpr s) * scaleMul st
      in \<lparr>rect_x = now_cx st - sw / Fin 2, rect_y = now_cy st - sh / Fin 2,
          rect_w = sw, rect_h = sh\<rparr>)"

section \<open>The public operations on blobs\<close>

fun string_of_nat :: "nat \<Rightarrow> string" where
  "string_of_nat n =
     (if n < 10 then [char_of (48 + n)]
      else string_of_nat (n div 10) @ [char_of (48 + n mod 10)])"

declare string_of_nat.simps [simp del]

lemma string_of_nat_1 [simp]: "string_of_nat (Suc 0) = ''1''"
  by code_simp

definition new_breath :: "BreathCfg \<Rightarrow> Breath" where
  "new_breath c =
     \<lparr>breath_scale = (case cfg_scale c of None \<Rightarrow> (Fin 1, Fin 1) | Some v \<Rightarrow> v),
      breath_opacity = (case cfg_bopacity c of None \<Rightarrow> (Fin 1, Fin 1) | Some v \<Rightarrow> v),
      breath_speed = (case cfg_bspeed c of None \<Rightarrow> Fin (1 / 40) | Some v \<Rightarrow> v),
      breath_phase = (case cfg_phase c of None \<Rightarrow> Fin 0 | Some v \<Rightarrow> v)\<rparr>"

text \<open>\<^verbatim>\<open>cfg.drift?.ax ?? 2\<close>: the field of the drift configuration when both are there.\<close>

definition drift_field :: "DriftCfg option \<Rightarrow> (DriftCfg \<Rightarrow> jsnum option) \<Rightarrow> jsnum \<Rightarrow> jsnum" where
  "drift_field d f dflt =
     (case d of None \<Rightarrow> dflt | Some c \<Rightarrow> (case f c of None \<Rightarrow> dflt | Some v \<Rightarrow> v))"

text \<open>\<^verbatim>\<open>addBlob\<close> returns the identifier and the engine. An identifier that is absent or
  the empty string is falsy, and one is generated from the counter.\<close>

definition addBlob :: "BlobConfig \<Rightarrow> FluidBackground \<Rightarrow> string \<times> FluidBackground" where
  "addBlob cfg e =
     (let given = (case cfg_id cfg of None \<Rightarrow> [] | Some i \<Rightarrow> i);
          seq = (if given \<noteq> [] then idSeq e else Suc (idSeq e));
          i = (if given \<noteq> [] then given else CHR ''b'' # string_of_nat seq);
          blob = \<lparr>b_id = i,
                  b_diameter = cfg_diameter cfg,
                  b_center = cfg_center cfg,
                  b_layers = (case cfg_layers cfg of None \<Rightarrow> [] | Some ls \<Rightarrow> ls),
                  b_opacity = (case cfg_opacity cfg of None \<Rightarrow> Fin 1 | Some v \<Rightarrow> v),
                  b_parallaxScale = (case cfg_parallaxScale cfg of None \<Rightarrow> Fin 1 | Some v \<Rightarrow> v),
                  b_drift = \<lparr>drift_ax = drift_field (cfg_drift cfg) cfg_ax (Fin 2),
                             drift_ay = drift_field (cfg_drift cfg) cfg_ay (Fin 1),
                             drift_sx = drift_field (cfg_drift cfg) cfg_sx (Fin 1),
                             drift_sy = drift_field (cfg_drift cfg) cfg_sy (Fin 1),
                             drift_speed = drift_field (cfg_drift cfg) cfg_speed (Fin (1 / 40))\<rparr>,
                  b_breath = (case cfg_breath cfg of
                                Some (Some c) \<Rightarrow> Some (new_breath c)
                              | _ \<Rightarrow> None),
                  b_sprite = None,
                  b_diamPx = Fin 0,
                  b_ease = None,
                  b_lastRect = None,
                  b_nextRect = None,
                  b_static = False\<rparr>;
          blob' = classifyBlobStatic (rebuildSprite (state e) blob)
      in (i, e\<lparr>idSeq := seq, blobs := map_set i blob' (blobs e), needRebuildStatic := True\<rparr>))"

text \<open>The field assignments of \<^verbatim>\<open>updateBlob\<close>, one function for each
  \<^verbatim>\<open>if (patch.f !== undefined)\<close> of the source, applied in the source's order.\<close>

definition set_diameter :: "BlobPatch \<Rightarrow> BlobInternal \<Rightarrow> BlobInternal" where
  "set_diameter patch b =
     (case patch_diameter patch of None \<Rightarrow> b | Some v \<Rightarrow> b\<lparr>b_diameter := v\<rparr>)"

definition set_layers :: "BlobPatch \<Rightarrow> BlobInternal \<Rightarrow> BlobInternal" where
  "set_layers patch b =
     (case patch_layers patch of None \<Rightarrow> b | Some v \<Rightarrow> b\<lparr>b_layers := v\<rparr>)"

definition set_center :: "BlobPatch \<Rightarrow> BlobInternal \<Rightarrow> BlobInternal" where
  "set_center patch b =
     (case patch_center patch of None \<Rightarrow> b | Some v \<Rightarrow> b\<lparr>b_center := v\<rparr>)"

definition set_opacity :: "BlobPatch \<Rightarrow> BlobInternal \<Rightarrow> BlobInternal" where
  "set_opacity patch b =
     (case patch_opacity patch of None \<Rightarrow> b | Some v \<Rightarrow> b\<lparr>b_opacity := v\<rparr>)"

definition set_parallaxScale :: "BlobPatch \<Rightarrow> BlobInternal \<Rightarrow> BlobInternal" where
  "set_parallaxScale patch b =
     (case patch_parallaxScale patch of None \<Rightarrow> b | Some v \<Rightarrow> b\<lparr>b_parallaxScale := v\<rparr>)"

definition merge_drift :: "DriftCfg \<Rightarrow> Drift \<Rightarrow> Drift" where
  "merge_drift d old =
     \<lparr>drift_ax = (case cfg_ax d of None \<Rightarrow> drift_ax old | Some v \<Rightarrow> v),
      drift_ay = (case cfg_ay d of None \<Rightarrow> drift_ay old | Some v \<Rightarrow> v),
      drift_sx = (case cfg_sx d of None \<Rightarrow> drift_sx old | Some v \<Rightarrow> v),
      drift_sy = (case cfg_sy d of None \<Rightarrow> drift_sy old | Some v \<Rightarrow> v),
      drift_speed = (case cfg_speed d of None \<Rightarrow> drift_speed old | Some v \<Rightarrow> v)\<rparr>"

definition set_drift :: "BlobPatch \<Rightarrow> BlobInternal \<Rightarrow> BlobInternal" where
  "set_drift patch b =
     (case patch_drift patch of
        None \<Rightarrow> b
      | Some d \<Rightarrow> b\<lparr>b_drift := merge_drift d (b_drift b)\<rparr>)"

definition set_breath :: "BlobPatch \<Rightarrow> BlobInternal \<Rightarrow> BlobInternal" where
  "set_breath patch b =
     (case patch_breath patch of
        None \<Rightarrow> b
      | Some None \<Rightarrow> b\<lparr>b_breath := None\<rparr>
      | Some (Some c) \<Rightarrow> b\<lparr>b_breath := Some (new_breath c)\<rparr>)"

definition patch_fields :: "BlobPatch \<Rightarrow> BlobInternal \<Rightarrow> BlobInternal" where
  "patch_fields patch b =
     set_breath patch (set_drift patch (set_parallaxScale patch (set_opacity patch
       (set_center patch (set_layers patch (set_diameter patch b))))))"

definition needSprite :: "BlobPatch \<Rightarrow> bool" where
  "needSprite patch = (patch_diameter patch \<noteq> None \<or> patch_layers patch \<noteq> None)"

definition affectsStatic :: "BlobPatch \<Rightarrow> bool" where
  "affectsStatic patch =
     (patch_center patch \<noteq> None \<or> patch_opacity patch \<noteq> None
      \<or> patch_parallaxScale patch \<noteq> None \<or> patch_drift patch \<noteq> None
      \<or> patch_breath patch \<noteq> None)"

definition updateBlob :: "string \<Rightarrow> BlobPatch \<Rightarrow> FluidBackground \<Rightarrow> FluidBackground" where
  "updateBlob i patch e =
     (case map_get i (blobs e) of
        None \<Rightarrow> e
      | Some b \<Rightarrow>
          (let b7 = patch_fields patch b;
               b8 = (if needSprite patch then rebuildSprite (state e) b7 else b7);
               b9 = (if affectsStatic patch then classifyBlobStatic b8 else b8)
           in e\<lparr>blobs := map_set i b9 (blobs e),
                needRebuildStatic := (if needSprite patch \<or> affectsStatic patch then True
                                      else needRebuildStatic e)\<rparr>))"

definition removeBlob :: "string \<Rightarrow> FluidBackground \<Rightarrow> FluidBackground" where
  "removeBlob i e =
     (case map_get i (blobs e) of
        None \<Rightarrow> e
      | Some b \<Rightarrow> e\<lparr>blobs := map_delete i (blobs e), needRebuildStatic := True\<rparr>)"


text \<open>\<^verbatim>\<open>easeTo(id, toCenter, durationMs = 800, easing = "easeInOutQuad")\<close>: an omitted
  argument is \<open>None\<close>.\<close>

definition easeTo ::
  "string \<Rightarrow> jsval \<times> jsval \<Rightarrow> jsnum option \<Rightarrow> string option \<Rightarrow> FluidBackground \<Rightarrow> FluidBackground"
where
  "easeTo i toCenter durationMs easing e =
     (case map_get i (blobs e) of
        None \<Rightarrow> e
      | Some b \<Rightarrow>
          (let dims = dims_of (state e);
               from_pt = resolveCenter (b_center b) dims;
               to_pt = \<lparr>pt_x = unitToPx (fst toCenter) dims AxisX,
                        pt_y = unitToPx (snd toCenter) dims AxisY\<rparr>;
               dur = (case durationMs of None \<Rightarrow> Fin 800 | Some d \<Rightarrow> d);
               name = (case easing of None \<Rightarrow> ''easeInOutQuad'' | Some n \<Rightarrow> n);
               fn = (case Easings name of None \<Rightarrow> EaseInOutQuad | Some f \<Rightarrow> f);
               b1 = b\<lparr>b_ease := Some \<lparr>ease_from = from_pt, ease_to = to_pt, ease_t = Fin 0,
                                        ease_durMs = Math_max (Fin 1) dur, ease_fn = fn\<rparr>\<rparr>
           in if b_static b1
              then e\<lparr>blobs := map_set i (b1\<lparr>b_static := False\<rparr>) (blobs e),
                     needRebuildStatic := True\<rparr>
              else e\<lparr>blobs := map_set i b1 (blobs e)\<rparr>))"



section \<open>Rendering\<close>

text \<open>A blob is dynamic when it is not classified static and has a sprite: the test
  \<^verbatim>\<open>if (b._static || !b._sprite) continue\<close> of every loop over the registry.\<close>

definition static_draw :: "State \<Rightarrow> BlobInternal \<Rightarrow> SpriteDraw list" where
  "static_draw s b =
     (case b_sprite b of
        None \<Rightarrow> []
      | Some sprite \<Rightarrow>
          if \<not> b_static b then []
          else
            (let base = resolveCenter (b_center b) (dims_of s);
                 sw = sp_width sprite / dpr s;
                 sh = sp_height sprite / dpr s;
                 x = pt_x base - sw / Fin 2;
                 y = pt_y base - sh / Fin 2
             in [SpriteDraw sprite
                   \<lparr>rect_x = Math_round (x * dpr s), rect_y = Math_round (y * dpr s),
                    rect_w = Math_round (sw * dpr s), rect_h = Math_round (sh * dpr s)\<rparr>
                   (alpha s * b_opacity b)]))"

definition buildStaticLayer :: "FluidBackground \<Rightarrow> FluidBackground" where
  "buildStaticLayer e =
     (if \<not> staticCtx e then e
      else e\<lparr>staticLayer := concat (map (\<lambda>(k, b). static_draw (state e) b) (blobs e)),
             needRebuildStatic := False\<rparr>)"

definition draw_dynamic ::
  "State \<Rightarrow> jsnum \<Rightarrow> jsnum \<Rightarrow> Rect list option \<Rightarrow> BlobInternal \<Rightarrow> CanvasOp list" where
  "draw_dynamic s tSec parallaxPx limitRects b =
     (case b_sprite b of
        None \<Rightarrow> []
      | Some sprite \<Rightarrow>
          if b_static b then []
          else
            (let st = blobStateNow s b tSec parallaxPx;
                 sw = (sp_width sprite / dpr s) * scaleMul st;
                 sh = (sp_height sprite / dpr s) * scaleMul st;
                 x = now_cx st - sw / Fin 2;
                 y = now_cy st - sh / Fin 2;
                 rect = \<lparr>rect_x = x, rect_y = y, rect_w = sw, rect_h = sh\<rparr>;
                 skip = (case limitRects of
                           None \<Rightarrow> False
                         | Some rs \<Rightarrow> \<not> list_ex (\<lambda>r. intersect r rect) rs)
             in if skip then []
                else [DrawBlob (b_id b) sprite rect (alpha s * b_opacity b * alphaMul st)
                        (composite s)]))"

definition drawDynamics :: "FluidBackground \<Rightarrow> jsnum \<Rightarrow> Rect list option \<Rightarrow> CanvasOp list" where
  "drawDynamics e ts limitRects =
     (let s = state e;
          tSec = ts / Fin 1000;
          parallaxPx = parallaxVmax s * (st_vMax s / Fin 100)
      in concat (map (\<lambda>(k, b). draw_dynamic s tSec parallaxPx limitRects b) (blobs e)))"

definition fullRedraw :: "jsnum \<Rightarrow> FluidBackground \<Rightarrow> FluidBackground" where
  "fullRedraw ts e =
     (let e1 = (if needRebuildStatic e then buildStaticLayer e else e)
      in if \<not> ctx e1 then e1
         else e1\<lparr>canvas := canvas e1 @ [ClearCanvas, DrawLayer (staticLayer e1)]
                              @ drawDynamics e1 ts None\<rparr>)"

text \<open>The region of the static layer, in device pixels, that repairs a dirty rectangle.\<close>

definition blit_src :: "State \<Rightarrow> Rect \<Rightarrow> Rect" where
  "blit_src s r =
     \<lparr>rect_x = Math_max (Fin 0) (Math_floor (rect_x r * dpr s)),
      rect_y = Math_max (Fin 0) (Math_floor (rect_y r * dpr s)),
      rect_w = Math_ceil (rect_w r * dpr s),
      rect_h = Math_ceil (rect_h r * dpr s)\<rparr>"

definition redrawDirty :: "jsnum \<Rightarrow> Rect list \<Rightarrow> FluidBackground \<Rightarrow> FluidBackground" where
  "redrawDirty ts rects e =
     (if \<not> ctx e then e
      else e\<lparr>canvas := canvas e
                 @ map (\<lambda>r. BlitLayer (staticLayer e) (blit_src (state e) r) r) rects
                 @ drawDynamics e ts (Some rects)\<rparr>)"

section \<open>The frame step\<close>

text \<open>Advance a blob's easing transition by the frame's real delta time; when the elapsed
  fraction reaches 1 the transition is cleared and the blob is classified again.\<close>

definition advanceEase :: "jsnum \<Rightarrow> BlobInternal \<Rightarrow> BlobInternal" where
  "advanceEase dtMs b =
     (case b_ease b of
        None \<Rightarrow> b
      | Some ea \<Rightarrow>
          (let inc = clamp (dtMs / ease_durMs ea) (Fin 0) (Fin 1);
               t' = clamp (ease_t ea + inc) (Fin 0) (Fin 1)
           in if Fin 1 \<le> t' then classifyBlobStatic (b\<lparr>b_ease := None\<rparr>)
              else b\<lparr>b_ease := Some (ea\<lparr>ease_t := t'\<rparr>)\<rparr>))"

text \<open>The body of the first loop of \<^verbatim>\<open>_step\<close> for one blob: the blob after it, the dirty
  rectangles it pushes, and whether it asks for the static layer to be rebuilt.\<close>

definition step_blob ::
  "State \<Rightarrow> jsnum \<Rightarrow> jsnum \<Rightarrow> jsnum \<Rightarrow> jsnum \<Rightarrow> BlobInternal
     \<Rightarrow> BlobInternal \<times> Rect list \<times> bool" where
  "step_blob s tSec dtMs pad parallaxPx b =
     (case b_sprite b of
        None \<Rightarrow> (b, [], False)
      | Some sprite \<Rightarrow>
          if b_static b then (b, [], False)
          else
            (let b1 = advanceEase dtMs b;
                 nowRect = blobRect s b1 sprite tSec parallaxPx;
                 infNow = inflateRect nowRect pad
             in (b1\<lparr>b_nextRect := Some nowRect\<rparr>,
                 (case b_lastRect b1 of None \<Rightarrow> [] | Some l \<Rightarrow> [inflateRect l pad]) @ [infNow],
                 b_ease b \<noteq> None \<and> b_ease b1 = None \<and> b_static b1)))"

fun step_blobs ::
  "State \<Rightarrow> jsnum \<Rightarrow> jsnum \<Rightarrow> jsnum \<Rightarrow> jsnum \<Rightarrow> (string \<times> BlobInternal) list
     \<Rightarrow> (string \<times> BlobInternal) list \<times> Rect list \<times> bool" where
  "step_blobs s tSec dtMs pad parallaxPx [] = ([], [], False)"
| "step_blobs s tSec dtMs pad parallaxPx ((k, b) # rest) =
     (let r1 = step_blob s tSec dtMs pad parallaxPx b;
          r2 = step_blobs s tSec dtMs pad parallaxPx rest
      in ((k, fst r1) # fst r2, fst (snd r1) @ fst (snd r2), snd (snd r1) \<or> snd (snd r2)))"

text \<open>The last loop of \<^verbatim>\<open>_step\<close>: this frame's rectangle becomes the last one.\<close>

definition commit_rect :: "BlobInternal \<Rightarrow> BlobInternal" where
  "commit_rect b =
     (if b_static b \<or> b_sprite b = None then b
      else b\<lparr>b_lastRect := b_nextRect b, b_nextRect := None\<rparr>)"

definition damage_pad :: "State \<Rightarrow> jsnum" where
  "damage_pad s = Math_max (damagePaddingPx s) (blurPx s * Fin (15 / 10))"

definition cover_of :: "State \<Rightarrow> Rect list \<Rightarrow> jsnum" where
  "cover_of s merged =
     foldl (\<lambda>a r. a + rect_w r * rect_h r) (Fin 0) merged / (st_w s * st_h s)"

text \<open>The fall-back test: too many rectangles, or too much of the surface covered.\<close>

definition needs_full :: "State \<Rightarrow> Rect list \<Rightarrow> bool" where
  "needs_full s merged =
     (maxDirtyRects s < Fin (real (length merged)) \<or> fullRedrawThreshold s < cover_of s merged)"

definition smooth_pointer :: "State \<Rightarrow> State" where
  "smooth_pointer s =
     s\<lparr>st_px := lerp (st_px s) (st_tx s) (Fin (1 / 10)),
       st_py := lerp (st_py s) (st_ty s) (Fin (1 / 10))\<rparr>"

text \<open>The start of \<^verbatim>\<open>_step\<close>: smooth the pointer, rebuild the static layer if asked.\<close>

definition step_prepare :: "FluidBackground \<Rightarrow> FluidBackground" where
  "step_prepare e =
     (let e1 = e\<lparr>state := smooth_pointer (state e)\<rparr>
      in if needRebuildStatic e1 then buildStaticLayer e1 else e1)"

text \<open>The first loop of \<^verbatim>\<open>_step\<close> over the registry of the prepared engine.\<close>

definition step_scan ::
  "jsnum \<Rightarrow> jsnum \<Rightarrow> FluidBackground
     \<Rightarrow> (string \<times> BlobInternal) list \<times> Rect list \<times> bool" where
  "step_scan ts dtMs e =
     (let s = state e
      in step_blobs s (ts / Fin 1000) dtMs (damage_pad s)
           (parallaxVmax s * (st_vMax s / Fin 100)) (blobs e))"

definition step :: "jsnum \<Rightarrow> jsnum \<Rightarrow> FluidBackground \<Rightarrow> FluidBackground" where
  "step ts dtMs e =
     (if \<not> ctx e then e
      else
        (let e2 = step_prepare e;
             res = step_scan ts dtMs e2;
             dirty = fst (snd res);
             e3 = e2\<lparr>blobs := fst res,
                     needRebuildStatic := (needRebuildStatic e2 \<or> snd (snd res))\<rparr>
         in if dirty = [] then (if needRebuildStatic e3 then fullRedraw ts e3 else e3)
            else
              (let merged = mergeRects dirty (Fin 2);
                   e4 = (if needs_full (state e3) merged then fullRedraw ts e3
                         else redrawDirty ts merged e3)
               in e4\<lparr>blobs := map (\<lambda>(k, b). (k, commit_rect b)) (blobs e4)\<rparr>)))"

section \<open>The scheduler\<close>

definition requestAnimationFrame :: "FluidBackground \<Rightarrow> FluidBackground" where
  "requestAnimationFrame e =
     e\<lparr>raf := host_next e, host_pending := host_pending e @ [host_next e],
       host_next := Suc (host_next e)\<rparr>"

definition cancelAnimationFrame :: "nat \<Rightarrow> FluidBackground \<Rightarrow> FluidBackground" where
  "cancelAnimationFrame handle e = e\<lparr>host_pending := removeAll handle (host_pending e)\<rparr>"

definition loop :: "jsnum \<Rightarrow> FluidBackground \<Rightarrow> FluidBackground" where
  "loop ts e =
     (if \<not> running (state e) then e
      else if Fin 0 < fpsCap (state e)
              \<and> ts - lastFrameTs e < Fin 1000 / fpsCap (state e)
      then requestAnimationFrame e
      else
        (let dt = Math_max (Fin 0) (ts - lastFrameTs e);
             e1 = e\<lparr>lastFrameTs := ts\<rparr>
         in requestAnimationFrame (step ts dt e1)))"

text \<open>\<^verbatim>\<open>start\<close> reads the host's clock, passed as \<open>now\<close>.\<close>

definition start :: "jsnum \<Rightarrow> FluidBackground \<Rightarrow> FluidBackground" where
  "start now e =
     (if running (state e) \<or> \<not> ctx e then e
      else requestAnimationFrame
             (e\<lparr>state := (state e)\<lparr>running := True\<rparr>, lastFrameTs := now\<rparr>))"

definition stop :: "FluidBackground \<Rightarrow> FluidBackground" where
  "stop e = cancelAnimationFrame (raf e) (e\<lparr>state := (state e)\<lparr>running := False\<rparr>\<rparr>)"


section \<open>A concrete engine\<close>

text \<open>The state the constructor builds, with its defaults for a wide screen, on a surface
  of 200 by 100 pixels at density 1, and the engine over it with an empty registry.\<close>

definition demo_state :: State where
  "demo_state =
     \<lparr>st_w = Fin 200, st_h = Fin 100, st_vMax = Fin 200, dpr = Fin 1,
      alpha = Fin (1 / 2), blurPx = Fin 36, composite = ''source-over'',
      parallaxVmax = Fin (9 / 10), fpsCap = Fin 0,
      st_px = Fin 0, st_py = Fin 0, st_tx = Fin 0, st_ty = Fin 0,
      running = False, prefersReduce = False,
      damagePaddingPx = Fin 12, fullRedrawThreshold = Fin (55 / 100), maxDirtyRects = Fin 16\<rparr>"

definition demo_engine :: FluidBackground where
  "demo_engine =
     \<lparr>ctx = True, state = demo_state, blobs = [], idSeq = 0, staticCtx = True,
      staticLayer = [], needRebuildStatic = True, raf = 0, lastFrameTs = Fin 0,
      pointerEnabled = True, canvas = [], host_next = 1, host_pending = []\<rparr>"

section \<open>The unit resolver on unparsable strings\<close>

lemmas parse_defs =
  unitToPx_def trim_def endsWith_def parseFloat_def parse_unsigned_def is_ws_def is_digit_def
  digits_val_def pow10_def parse_exponent_def

lemma unitToPx_number: "unitToPx (Num n) dims ax = n"
  by (simp add: unitToPx_def)

lemma unitToPx_percent_x:
  "unitToPx (Str ''50%'') \<lparr>dims_w = Fin 200, dims_h = Fin 100, dims_vMax = Fin 200\<rparr> AxisX = Fin 100"
  by (simp add: parse_defs)

lemma unitToPx_percent_y:
  "unitToPx (Str ''50%'') \<lparr>dims_w = Fin 200, dims_h = Fin 100, dims_vMax = Fin 200\<rparr> AxisY = Fin 50"
  by (simp add: parse_defs)

text \<open>A string without a unit suffix from which no number can be parsed resolves to 0.\<close>

lemma unitToPx_plain_unparsable:
  assumes "parseFloat (trim str) = NaN"
    and "\<not> endsWith (trim str) ''px''" and "\<not> endsWith (trim str) ''%''"
    and "\<not> endsWith (trim str) ''vw''" and "\<not> endsWith (trim str) ''vh''"
    and "\<not> endsWith (trim str) ''vmax''"
  shows "unitToPx (Str str) dims ax = Fin 0"
  using assms by (simp add: unitToPx_def)

lemma unitToPx_garbage: "unitToPx (Str ''garbage'') dims ax = Fin 0"
  by (simp add: parse_defs)

text \<open>
  Claim C7: the unit resolver returns 0 for every string from which no number can be
  parsed, also when the string ends in a recognised unit suffix. The source guards only
  the branch without a suffix (\<^verbatim>\<open>Number.isNaN(n) ? 0 : n\<close>); on a suffix branch the result
  of \<^verbatim>\<open>parseFloat\<close> is returned or multiplied as it is. At the input \<^verbatim>\<open>"abcpx"\<close> no number
  can be parsed and the resolver returns \<open>NaN\<close>, not 0, for every \<open>dims\<close> and axis.
\<close>

theorem unitToPx_suffix_unparsable:
  "parseFloat (trim ''abcpx'') = NaN \<and> unitToPx (Str ''abcpx'') dims ax = NaN"
  by (simp add: parse_defs)

lemma unitToPx_percent_unparsable:
  "unitToPx (Str ''x%'') \<lparr>dims_w = Fin 200, dims_h = Fin 100, dims_vMax = Fin 200\<rparr> AxisX = NaN"
  by (simp add: parse_defs)

section \<open>Operations on an unknown identifier\<close>

lemma map_get_None_iff: "map_get i m = None \<longleftrightarrow> i \<notin> fst ` set m"
  by (simp add: map_get_def map_of_eq_None_iff)

text \<open>
  Claim C8: for an identifier that is not in the registry, \<^verbatim>\<open>updateBlob\<close>, \<^verbatim>\<open>removeBlob\<close>
  and \<^verbatim>\<open>easeTo\<close> return without raising and leave the whole engine (registry, surface
  state, static-layer flag and everything else) as it was. The operations are total
  functions of the model, so returning is part of their type; the theorem is that the
  engine returned is the engine given.
\<close>

theorem unknown_id_noop:
  assumes "i \<notin> fst ` set (blobs e)"
  shows "updateBlob i patch e = e \<and> removeBlob i e = e
    \<and> easeTo i target duration easing e = e"
  using assms by (simp add: updateBlob_def removeBlob_def easeTo_def map_get_None_iff [symmetric])

theorem unknown_id_noop_witness:
  "updateBlob ''ghost''
     \<lparr>patch_diameter = Some (Num (Fin 50)), patch_center = None, patch_layers = None,
      patch_opacity = Some (Fin 1), patch_parallaxScale = None, patch_drift = None,
      patch_breath = None\<rparr> demo_engine = demo_engine
   \<and> removeBlob ''ghost'' demo_engine = demo_engine
   \<and> easeTo ''ghost'' (Str ''10%'', Str ''10%'') (Some (Fin 500)) (Some ''easeInOutQuad'')
       demo_engine = demo_engine"
  using unknown_id_noop [of "''ghost''" demo_engine] by (simp add: demo_engine_def)

section \<open>The frame-rate cap\<close>

text \<open>
  Claim C9: with a frame-rate cap \<open>n > 0\<close>, a frame callback of a running engine whose
  timestamp is less than \<open>1000 / n\<close> milliseconds after the last accepted frame's
  timestamp does nothing but request the next callback: the state, the blobs, the surface,
  the static layer and the last accepted timestamp are unchanged, and only the scheduler's
  handle and queue differ.
\<close>

theorem fps_cap_skips_early_frames:
  assumes "running (state e)" and "Fin 0 < fpsCap (state e)"
    and "ts - lastFrameTs e < Fin 1000 / fpsCap (state e)"
  shows "loop ts e = requestAnimationFrame e
    \<and> loop ts e = e\<lparr>raf := host_next e, host_pending := host_pending e @ [host_next e],
                      host_next := Suc (host_next e)\<rparr>"
  using assms by (simp add: loop_def requestAnimationFrame_def)

theorem fps_cap_skips_early_frames_witness:
  "loop (Fin 1010)
     (demo_engine\<lparr>state := demo_state\<lparr>running := True, fpsCap := Fin 30\<rparr>,
                  lastFrameTs := Fin 1000\<rparr>)
   = requestAnimationFrame
       (demo_engine\<lparr>state := demo_state\<lparr>running := True, fpsCap := Fin 30\<rparr>,
                    lastFrameTs := Fin 1000\<rparr>)"
  using fps_cap_skips_early_frames
    [of "demo_engine\<lparr>state := demo_state\<lparr>running := True, fpsCap := Fin 30\<rparr>,
                      lastFrameTs := Fin 1000\<rparr>" "Fin 1010"]
  by (simp add: demo_engine_def demo_state_def)

section \<open>Reachable engines and the registry invariant\<close>






lemma map_get_map_set: "map_get k (map_set k v m) = Some v"
  by (induction m) (auto simp: map_get_def)






lemma staticCandidate_frame [simp]:
  "staticCandidate (b\<lparr>b_nextRect := r\<rparr>) = staticCandidate b"
  "staticCandidate (b\<lparr>b_lastRect := r\<rparr>) = staticCandidate b"
  "staticCandidate (b\<lparr>b_sprite := sp\<rparr>) = staticCandidate b"
  "staticCandidate (b\<lparr>b_diamPx := n\<rparr>) = staticCandidate b"
  "staticCandidate (b\<lparr>b_static := st\<rparr>) = staticCandidate b"
  "staticCandidate (b\<lparr>b_diameter := v\<rparr>) = staticCandidate b"
  "staticCandidate (b\<lparr>b_layers := ls\<rparr>) = staticCandidate b"
  "staticCandidate (b\<lparr>b_center := c\<rparr>) = staticCandidate b"
  "staticCandidate (b\<lparr>b_opacity := n\<rparr>) = staticCandidate b"
  by (simp_all add: staticCandidate_def noParallax_def noBreath_def noDrift_def)


lemma staticCandidate_classify [simp]: "staticCandidate (classifyBlobStatic b) = staticCandidate b"
  by (simp add: classifyBlobStatic_def)







lemma blobs_buildStaticLayer [simp]: "blobs (buildStaticLayer e) = blobs e"
  by (simp add: buildStaticLayer_def)

lemma blobs_fullRedraw [simp]: "blobs (fullRedraw ts e) = blobs e"
  by (simp add: fullRedraw_def Let_def)

lemma blobs_redrawDirty [simp]: "blobs (redrawDirty ts rs e) = blobs e"
  by (simp add: redrawDirty_def)

lemma blobs_requestAnimationFrame [simp]: "blobs (requestAnimationFrame e) = blobs e"
  by (simp add: requestAnimationFrame_def)





lemma blobs_step_prepare [simp]: "blobs (step_prepare e) = blobs e"
  by (simp add: step_prepare_def Let_def)










lemmas set_field_defs =
  set_diameter_def set_layers_def set_center_def set_opacity_def set_parallaxScale_def
  set_drift_def set_breath_def

lemma set_field_keeps [simp]:
  "b_id (set_diameter patch b) = b_id b" "b_sprite (set_diameter patch b) = b_sprite b"
  "b_static (set_diameter patch b) = b_static b" "b_ease (set_diameter patch b) = b_ease b"
  "b_id (set_layers patch b) = b_id b" "b_sprite (set_layers patch b) = b_sprite b"
  "b_static (set_layers patch b) = b_static b" "b_ease (set_layers patch b) = b_ease b"
  "b_id (set_center patch b) = b_id b" "b_sprite (set_center patch b) = b_sprite b"
  "b_static (set_center patch b) = b_static b" "b_ease (set_center patch b) = b_ease b"
  "b_id (set_opacity patch b) = b_id b" "b_sprite (set_opacity patch b) = b_sprite b"
  "b_static (set_opacity patch b) = b_static b" "b_ease (set_opacity patch b) = b_ease b"
  "b_id (set_parallaxScale patch b) = b_id b" "b_sprite (set_parallaxScale patch b) = b_sprite b"
  "b_static (set_parallaxScale patch b) = b_static b" "b_ease (set_parallaxScale patch b) = b_ease b"
  "b_id (set_drift patch b) = b_id b" "b_sprite (set_drift patch b) = b_sprite b"
  "b_static (set_drift patch b) = b_static b" "b_ease (set_drift patch b) = b_ease b"
  "b_id (set_breath patch b) = b_id b" "b_sprite (set_breath patch b) = b_sprite b"
  "b_static (set_breath patch b) = b_static b" "b_ease (set_breath patch b) = b_ease b"
  by (simp_all add: set_field_defs split: option.splits)

lemma patch_fields_keeps [simp]:
  "b_id (patch_fields patch b) = b_id b"
  "b_sprite (patch_fields patch b) = b_sprite b"
  "b_static (patch_fields patch b) = b_static b"
  "b_ease (patch_fields patch b) = b_ease b"
  by (simp_all add: patch_fields_def)

lemma set_field_candidate [simp]:
  "staticCandidate (set_diameter patch b) = staticCandidate b"
  "staticCandidate (set_layers patch b) = staticCandidate b"
  "staticCandidate (set_center patch b) = staticCandidate b"
  "staticCandidate (set_opacity patch b) = staticCandidate b"
  by (simp_all add: set_field_defs split: option.splits)


lemma rebuildSprite_keeps [simp]:
  "b_id (rebuildSprite s b) = b_id b"
  "\<exists>y. b_sprite (rebuildSprite s b) = Some y"
  "b_static (rebuildSprite s b) = b_static b"
  "b_ease (rebuildSprite s b) = b_ease b"
  "staticCandidate (rebuildSprite s b) = staticCandidate b"
  by (simp_all add: rebuildSprite_def Let_def)




section \<open>Static and dynamic blobs\<close>

text \<open>A configuration that omits every optional parameter, and one for a blob that does not
  move: no parallax and no drift.\<close>

definition demo_cfg :: BlobConfig where
  "demo_cfg =
     \<lparr>cfg_id = None, cfg_diameter = Str ''50%'',
      cfg_center = Fixed (Str ''50%'') (Str ''50%''),
      cfg_layers = Some [\<lparr>color = (Fin 255, Fin 120, Fin 40), centerAlpha = None,
                          midAlpha = None, edgeAlpha = None\<rparr>],
      cfg_opacity = None, cfg_parallaxScale = None, cfg_drift = None, cfg_breath = None\<rparr>"

definition still_cfg :: BlobConfig where
  "still_cfg =
     demo_cfg\<lparr>cfg_parallaxScale := Some (Fin 0),
              cfg_drift := Some \<lparr>cfg_ax = Some (Fin 0), cfg_ay = Some (Fin 0), cfg_sx = Some (Fin 0),
                                 cfg_sy = Some (Fin 0), cfg_speed = Some (Fin 0)\<rparr>\<rparr>"



lemmas eval_defs =
  addBlob_def rebuildSprite_def classifyBlobStatic_def staticCandidate_def noParallax_def
  noBreath_def noDrift_def truthy_def drift_field_def dims_of_def demo_engine_def demo_state_def
  demo_cfg_def still_cfg_def Let_def


section \<open>Registering a blob\<close>

text \<open>The blob that \<^verbatim>\<open>addBlob\<close> has stored under the identifier it returns.\<close>

definition created_blob :: "BlobConfig \<Rightarrow> FluidBackground \<Rightarrow> BlobInternal option" where
  "created_blob cfg e = map_get (fst (addBlob cfg e)) (blobs (snd (addBlob cfg e)))"

lemma created_blob_eq:
  "created_blob cfg e =
     Some (classifyBlobStatic (rebuildSprite (state e)
       \<lparr>b_id = fst (addBlob cfg e),
        b_diameter = cfg_diameter cfg,
        b_center = cfg_center cfg,
        b_layers = (case cfg_layers cfg of None \<Rightarrow> [] | Some ls \<Rightarrow> ls),
        b_opacity = (case cfg_opacity cfg of None \<Rightarrow> Fin 1 | Some v \<Rightarrow> v),
        b_parallaxScale = (case cfg_parallaxScale cfg of None \<Rightarrow> Fin 1 | Some v \<Rightarrow> v),
        b_drift = \<lparr>drift_ax = drift_field (cfg_drift cfg) cfg_ax (Fin 2),
                   drift_ay = drift_field (cfg_drift cfg) cfg_ay (Fin 1),
                   drift_sx = drift_field (cfg_drift cfg) cfg_sx (Fin 1),
                   drift_sy = drift_field (cfg_drift cfg) cfg_sy (Fin 1),
                   drift_speed = drift_field (cfg_drift cfg) cfg_speed (Fin (1 / 40))\<rparr>,
        b_breath = (case cfg_breath cfg of Some (Some c) \<Rightarrow> Some (new_breath c) | _ \<Rightarrow> None),
        b_sprite = None, b_diamPx = Fin 0, b_ease = None, b_lastRect = None,
        b_nextRect = None, b_static = False\<rparr>))"
  by (simp add: created_blob_def addBlob_def Let_def map_get_map_set)

lemma classify_rebuild_fields [simp]:
  "b_opacity (classifyBlobStatic (rebuildSprite s b)) = b_opacity b"
  "b_parallaxScale (classifyBlobStatic (rebuildSprite s b)) = b_parallaxScale b"
  "b_drift (classifyBlobStatic (rebuildSprite s b)) = b_drift b"
  "b_breath (classifyBlobStatic (rebuildSprite s b)) = b_breath b"
  "b_id (classifyBlobStatic (rebuildSprite s b)) = b_id b"
  "b_diameter (classifyBlobStatic (rebuildSprite s b)) = b_diameter b"
  "b_center (classifyBlobStatic (rebuildSprite s b)) = b_center b"
  by (simp_all add: classifyBlobStatic_def rebuildSprite_def Let_def)

text \<open>
  Claim C6, as amended: a blob created from a configuration that omits an optional
  parameter gets opacity 1, parallax scale 1 and no breathing, and the drift parameters
  \<open>ax = 2\<close>, \<open>ay = 1\<close>, \<open>sx = 1\<close>, \<open>sy = 1\<close>, \<open>speed = 1/40\<close> (not drift
  amplitudes 0), each also when the drift object is given without that field; a breathing
  object given without a field gets scale and opacity \<open>[1, 1]\<close>, speed \<open>1/40\<close>,
  phase 0.
\<close>

theorem addBlob_defaults:
  "\<exists>b. created_blob cfg e = Some b
     \<and> (cfg_opacity cfg = None \<longrightarrow> b_opacity b = Fin 1)
     \<and> (cfg_parallaxScale cfg = None \<longrightarrow> b_parallaxScale b = Fin 1)
     \<and> (cfg_drift cfg = None \<longrightarrow>
          b_drift b = \<lparr>drift_ax = Fin 2, drift_ay = Fin 1, drift_sx = Fin 1, drift_sy = Fin 1,
                       drift_speed = Fin (1 / 40)\<rparr>)
     \<and> (\<forall>d. cfg_drift cfg = Some d \<longrightarrow>
          (cfg_ax d = None \<longrightarrow> drift_ax (b_drift b) = Fin 2)
          \<and> (cfg_ay d = None \<longrightarrow> drift_ay (b_drift b) = Fin 1)
          \<and> (cfg_sx d = None \<longrightarrow> drift_sx (b_drift b) = Fin 1)
          \<and> (cfg_sy d = None \<longrightarrow> drift_sy (b_drift b) = Fin 1)
          \<and> (cfg_speed d = None \<longrightarrow> drift_speed (b_drift b) = Fin (1 / 40)))
     \<and> (cfg_breath cfg = None \<or> cfg_breath cfg = Some None \<longrightarrow> b_breath b = None)
     \<and> (\<forall>c. cfg_breath cfg = Some (Some c) \<longrightarrow>
          (\<exists>br. b_breath b = Some br
            \<and> (cfg_scale c = None \<longrightarrow> breath_scale br = (Fin 1, Fin 1))
            \<and> (cfg_bopacity c = None \<longrightarrow> breath_opacity br = (Fin 1, Fin 1))
            \<and> (cfg_bspeed c = None \<longrightarrow> breath_speed br = Fin (1 / 40))
            \<and> (cfg_phase c = None \<longrightarrow> breath_phase br = Fin 0)))"
  by (auto simp: created_blob_eq drift_field_def new_breath_def)

theorem addBlob_defaults_witness:
  "map_option b_opacity (created_blob demo_cfg demo_engine) = Some (Fin 1)
   \<and> map_option b_parallaxScale (created_blob demo_cfg demo_engine) = Some (Fin 1)
   \<and> map_option b_drift (created_blob demo_cfg demo_engine)
       = Some \<lparr>drift_ax = Fin 2, drift_ay = Fin 1, drift_sx = Fin 1, drift_sy = Fin 1,
               drift_speed = Fin (1 / 40)\<rparr>
   \<and> map_option b_breath (created_blob demo_cfg demo_engine) = Some None"
  using addBlob_defaults [of demo_cfg demo_engine] by (auto simp: demo_cfg_def)

text \<open>The claim as stated fails: the blob created from \<open>demo_cfg\<close>, which omits the
  drift, has the primary amplitude 2 on the x axis, not 0.\<close>

theorem addBlob_drift_default_counterexample:
  "map_option (drift_ax \<circ> b_drift) (created_blob demo_cfg demo_engine) = Some (Fin 2)
   \<and> map_option (drift_ax \<circ> b_drift) (created_blob demo_cfg demo_engine) \<noteq> Some (Fin 0)"
  by (simp add: created_blob_eq drift_field_def demo_cfg_def)




section \<open>The drift offset\<close>

lemma or_zero_Fin [simp]: "or_zero (Fin a) = Fin a"
  by (simp add: or_zero_def truthy_def)





section \<open>Easing a blob to a target\<close>

lemma blobs_step:
  "ctx e \<Longrightarrow> blobs (step ts dtMs e) =
     (let s = smooth_pointer (state e);
          res = step_blobs s (ts / Fin 1000) dtMs (damage_pad s)
                  (parallaxVmax s * (st_vMax s / Fin 100)) (blobs e)
      in if fst (snd res) = [] then fst res
         else map (\<lambda>(k, b). (k, commit_rect b)) (fst res))"
  by (simp add: step_def step_scan_def step_prepare_def Let_def buildStaticLayer_def)

lemma state_buildStaticLayer [simp]: "state (buildStaticLayer e) = state e"
  by (simp add: buildStaticLayer_def)

lemma state_fullRedraw [simp]: "state (fullRedraw ts e) = state e"
  by (simp add: fullRedraw_def Let_def)

lemma state_redrawDirty [simp]: "state (redrawDirty ts rs e) = state e"
  by (simp add: redrawDirty_def)

lemma ctx_buildStaticLayer [simp]: "ctx (buildStaticLayer e) = ctx e"
  by (simp add: buildStaticLayer_def)

lemma ctx_fullRedraw [simp]: "ctx (fullRedraw ts e) = ctx e"
  by (simp add: fullRedraw_def Let_def)

lemma ctx_redrawDirty [simp]: "ctx (redrawDirty ts rs e) = ctx e"
  by (simp add: redrawDirty_def)

lemma state_step: "ctx e \<Longrightarrow> state (step ts dtMs e) = smooth_pointer (state e)"
  by (simp add: step_def step_prepare_def Let_def)

lemma ctx_step [simp]: "ctx (step ts dtMs e) = ctx e"
  by (simp add: step_def step_prepare_def Let_def)


text \<open>The end-to-end scenario of the specification: a blob at the centre of the 200 by 100
  surface, with no drift and the pointer at rest, in an engine started at time 1000; then
  \<^verbatim>\<open>easeTo(id, {x: "10%", y: "10%"}, 500, "easeInOutQuad")\<close>, and frame callbacks at the
  times 1000, 1125, 1250, 1375 and 1500. \<open>blob_center\<close> is the centre of the rectangle the
  blob occupied in the last frame.\<close>

definition glide_cfg :: BlobConfig where
  "glide_cfg =
     demo_cfg\<lparr>cfg_drift := Some \<lparr>cfg_ax = Some (Fin 0), cfg_ay = Some (Fin 0),
        cfg_sx = Some (Fin 0), cfg_sy = Some (Fin 0), cfg_speed = Some (Fin 0)\<rparr>\<rparr>"

definition ease_demo :: FluidBackground where
  "ease_demo =
     easeTo ''b1'' (Str ''10%'', Str ''10%'') (Some (Fin 500)) (Some ''easeInOutQuad'')
       (start (Fin 1000) (snd (addBlob glide_cfg demo_engine)))"

definition blob_center :: "string \<Rightarrow> FluidBackground \<Rightarrow> (jsnum \<times> jsnum) option" where
  "blob_center i e =
     (case map_get i (blobs e) of
        None \<Rightarrow> None
      | Some b \<Rightarrow>
          (case b_lastRect b of
             None \<Rightarrow> None
           | Some r \<Rightarrow> Some (rect_x r + rect_w r / Fin 2, rect_y r + rect_h r / Fin 2)))"

lemmas run_defs =
  eval_defs glide_cfg_def ease_demo_def easeTo_def start_def requestAnimationFrame_def
  map_get_def parse_defs resolveCenter_def Easings_def Math_max_def Math_min_def clamp_def
  lerp_def loop_def blobs_step step_blob_def advanceEase_def blobRect_def blobStateNow_def
  ease_center_def breath_mul_def driftX_def driftY_def TAU_def inflateRect_def commit_rect_def
  smooth_pointer_def damage_pad_def blob_center_def

lemma loop_accept:
  "running (state e) \<Longrightarrow> fpsCap (state e) = Fin 0 \<Longrightarrow>
   loop ts e = requestAnimationFrame
     (step ts (Math_max (Fin 0) (ts - lastFrameTs e)) (e\<lparr>lastFrameTs := ts\<rparr>))"
  by (simp add: loop_def Let_def)

lemma raf_fields [simp]:
  "state (requestAnimationFrame e) = state e"
  "ctx (requestAnimationFrame e) = ctx e"
  "lastFrameTs (requestAnimationFrame e) = lastFrameTs e"
  by (simp_all add: requestAnimationFrame_def)

lemma lastFrameTs_step [simp]: "lastFrameTs (step ts dtMs e) = lastFrameTs e"
  by (simp add: step_def step_prepare_def Let_def fullRedraw_def redrawDirty_def
      buildStaticLayer_def)

definition ease_frames :: "FluidBackground list" where
  "ease_frames =
     (let e1 = loop (Fin 1000) ease_demo;
          e2 = loop (Fin 1125) e1;
          e3 = loop (Fin 1250) e2;
          e4 = loop (Fin 1375) e3;
          e5 = loop (Fin 1500) e4
      in [e1, e2, e3, e4, e5])"

text \<open>The blob of the scenario as a function of what the frames change: its transition and
  its last rectangle.\<close>

definition glide_blob :: "InternalEase option \<Rightarrow> Rect option \<Rightarrow> BlobInternal" where
  "glide_blob ea lr =
     (the (created_blob glide_cfg demo_engine))
       \<lparr>b_ease := ea, b_lastRect := lr, b_nextRect := None, b_static := False\<rparr>"

definition glide_ease :: "real \<Rightarrow> InternalEase" where
  "glide_ease t =
     \<lparr>ease_from = \<lparr>pt_x = Fin 100, pt_y = Fin 50\<rparr>, ease_to = \<lparr>pt_x = Fin 20, pt_y = Fin 10\<rparr>,
      ease_t = Fin t, ease_durMs = Fin 500, ease_fn = EaseInOutQuad\<rparr>"

definition run_state :: State where
  "run_state = demo_state\<lparr>running := True\<rparr>"

definition square_at :: "real \<Rightarrow> real \<Rightarrow> Rect" where
  "square_at cx cy = \<lparr>rect_x = Fin (cx - 86), rect_y = Fin (cy - 86), rect_w = Fin 172, rect_h = Fin 172\<rparr>"

lemma glide_blob_fields [simp]:
  "b_static (glide_blob ea lr) = False"
  "b_ease (glide_blob ea lr) = ea"
  "b_lastRect (glide_blob ea lr) = lr"
  "b_center (glide_blob ea lr) = Fixed (Str ''50%'') (Str ''50%'')"
  "b_parallaxScale (glide_blob ea lr) = Fin 1"
  "b_drift (glide_blob ea lr) = \<lparr>drift_ax = Fin 0, drift_ay = Fin 0, drift_sx = Fin 0,
      drift_sy = Fin 0, drift_speed = Fin 0\<rparr>"
  "b_breath (glide_blob ea lr) = None"
  "map_option sp_width (b_sprite (glide_blob ea lr)) = Some (Fin 172)"
  "map_option sp_height (b_sprite (glide_blob ea lr)) = Some (Fin 172)"
  by (simp_all add: glide_blob_def created_blob_eq glide_cfg_def demo_cfg_def demo_engine_def
      demo_state_def drift_field_def classifyBlobStatic_def rebuildSprite_def Let_def dims_of_def
      parse_defs Math_max_def)

lemma ease_demo_core:
  "ctx ease_demo" "state ease_demo = run_state" "lastFrameTs ease_demo = Fin 1000"
  "blobs ease_demo = [(''b1'', glide_blob (Some (glide_ease 0)) None)]"
  by (simp_all add: run_defs run_state_def glide_blob_def glide_ease_def created_blob_def)


definition glide_sprite :: Sprite where
  "glide_sprite = the (b_sprite (the (created_blob glide_cfg demo_engine)))"

lemma glide_sprite_fields [simp]:
  "b_sprite (glide_blob ea lr) = Some glide_sprite"
  "sp_width glide_sprite = Fin 172" "sp_height glide_sprite = Fin 172"
  by (simp_all add: glide_sprite_def glide_blob_def created_blob_eq glide_cfg_def demo_cfg_def
      demo_engine_def demo_state_def classifyBlobStatic_def rebuildSprite_def Let_def dims_of_def
      parse_defs Math_max_def)

lemma run_state_fields [simp]:
  "running run_state" "fpsCap run_state = Fin 0" "smooth_pointer run_state = run_state"
  "damage_pad run_state = Fin 54" "parallaxVmax run_state * (st_vMax run_state / Fin 100) = Fin (9 / 5)"
  "dims_of run_state = \<lparr>dims_w = Fin 200, dims_h = Fin 100, dims_vMax = Fin 200\<rparr>"
  "st_px run_state = Fin 0" "st_py run_state = Fin 0" "dpr run_state = Fin 1"
  by (simp_all add: run_state_def demo_state_def smooth_pointer_def lerp_def damage_pad_def
      Math_max_def dims_of_def)

lemma glide_frame:
  assumes "ctx e" "state e = run_state" "lastFrameTs e = Fin l"
    "blobs e = [(''b1'', glide_blob ea lr)]"
  shows "ctx (loop (Fin ts) e)" "state (loop (Fin ts) e) = run_state"
    "lastFrameTs (loop (Fin ts) e) = Fin ts"
    "blobs (loop (Fin ts) e) =
       [(''b1'', commit_rect (fst (step_blob run_state (Fin (ts / 1000)) (Fin (max 0 (ts - l)))
           (Fin 54) (Fin (9 / 5)) (glide_blob ea lr))))]"
  using assms
  by (simp_all add: loop_accept state_step blobs_step Let_def step_blob_def Math_max_def max_def)

lemma glide_center [simp]:
  "resolveCenter (Fixed (Str ''50%'') (Str ''50%'')) \<lparr>dims_w = Fin 200, dims_h = Fin 100, dims_vMax = Fin 200\<rparr>
     = \<lparr>pt_x = Fin 100, pt_y = Fin 50\<rparr>"
  by (simp add: resolveCenter_def parse_defs)

lemmas glide_step_defs =
  step_blob_def advanceEase_def blobRect_def blobStateNow_def ease_center_def breath_mul_def
  driftX_def driftY_def TAU_def commit_rect_def glide_ease_def square_at_def clamp_def
  Math_max_def Math_min_def lerp_def Let_def

lemma glide_step_1:
  "commit_rect (fst (step_blob run_state (Fin tS) (Fin 0) (Fin pad) (Fin pp)
       (glide_blob (Some (glide_ease 0)) None)))
     = glide_blob (Some (glide_ease 0)) (Some (square_at 100 50))"
  by (rule BlobInternal.equality; simp add: glide_step_defs; simp add: glide_blob_def)

lemma glide_step_2:
  "commit_rect (fst (step_blob run_state (Fin tS) (Fin 125) (Fin pad) (Fin pp)
       (glide_blob (Some (glide_ease 0)) lr)))
     = glide_blob (Some (glide_ease (1 / 4))) (Some (square_at 90 45))"
  by (rule BlobInternal.equality; simp add: glide_step_defs; simp add: glide_blob_def)

lemma glide_step_3:
  "commit_rect (fst (step_blob run_state (Fin tS) (Fin 125) (Fin pad) (Fin pp)
       (glide_blob (Some (glide_ease (1 / 4))) lr)))
     = glide_blob (Some (glide_ease (1 / 2))) (Some (square_at 60 30))"
  by (rule BlobInternal.equality; simp add: glide_step_defs; simp add: glide_blob_def)

lemma glide_step_4:
  "commit_rect (fst (step_blob run_state (Fin tS) (Fin 125) (Fin pad) (Fin pp)
       (glide_blob (Some (glide_ease (1 / 2))) lr)))
     = glide_blob (Some (glide_ease (3 / 4))) (Some (square_at 30 15))"
  by (rule BlobInternal.equality; simp add: glide_step_defs; simp add: glide_blob_def)

lemma glide_step_5:
  "commit_rect (fst (step_blob run_state (Fin tS) (Fin 125) (Fin pad) (Fin pp)
       (glide_blob (Some (glide_ease (3 / 4))) lr)))
     = glide_blob None (Some (square_at 100 50))"
  by (rule BlobInternal.equality;
      simp add: glide_step_defs classifyBlobStatic_def staticCandidate_def noParallax_def truthy_def;
      simp add: glide_blob_def)


text \<open>The destination of a blob's active transition.\<close>

definition ease_target :: "string \<Rightarrow> FluidBackground \<Rightarrow> Point option" where
  "ease_target i e =
     (case map_get i (blobs e) of None \<Rightarrow> None | Some b \<Rightarrow> map_option ease_to (b_ease b))"

text \<open>
  Claim C3: after \<^verbatim>\<open>easeTo(id, target, 500, "easeInOutQuad")\<close> at time \<open>T\<close>, the frames at
  \<open>T\<close>, \<open>T + 125\<close>, \<open>T + 250\<close>, \<open>T + 375\<close>, \<open>T + 500\<close> give centres that approach the
  target monotonically, and the last one lies on the destination. The source does not do
  this. The destination is (20, 10); the centres of the first four frames are (100, 50),
  (90, 45), (60, 30), (30, 15), and the frame at \<open>T + 500\<close>, where the elapsed fraction
  reaches 1, puts the blob back at (100, 50): the step clears the transition before it
  computes the frame's rectangle, and nothing has written the destination into the blob's
  configured centre.
\<close>

theorem easeTo_snaps_back:
  "ease_target ''b1'' ease_demo = Some \<lparr>pt_x = Fin 20, pt_y = Fin 10\<rparr>
   \<and> map (blob_center ''b1'') ease_frames
     = [Some (Fin 100, Fin 50), Some (Fin 90, Fin 45), Some (Fin 60, Fin 30),
        Some (Fin 30, Fin 15), Some (Fin 100, Fin 50)]"
proof -
  define e1 where "e1 = loop (Fin 1000) ease_demo"
  define e2 where "e2 = loop (Fin 1125) e1"
  define e3 where "e3 = loop (Fin 1250) e2"
  define e4 where "e4 = loop (Fin 1375) e3"
  define e5 where "e5 = loop (Fin 1500) e4"
  note c0 = ease_demo_core
  have c1: "ctx e1" "state e1 = run_state" "lastFrameTs e1 = Fin 1000"
    "blobs e1 = [(''b1'', glide_blob (Some (glide_ease 0)) (Some (square_at 100 50)))]"
    unfolding e1_def using glide_frame [OF c0, of 1000] by (simp_all add: glide_step_1)
  have c2: "ctx e2" "state e2 = run_state" "lastFrameTs e2 = Fin 1125"
    "blobs e2 = [(''b1'', glide_blob (Some (glide_ease (1 / 4))) (Some (square_at 90 45)))]"
    unfolding e2_def using glide_frame [OF c1, of 1125] by (simp_all add: glide_step_2)
  have c3: "ctx e3" "state e3 = run_state" "lastFrameTs e3 = Fin 1250"
    "blobs e3 = [(''b1'', glide_blob (Some (glide_ease (1 / 2))) (Some (square_at 60 30)))]"
    unfolding e3_def using glide_frame [OF c2, of 1250] by (simp_all add: glide_step_3)
  have c4: "ctx e4" "state e4 = run_state" "lastFrameTs e4 = Fin 1375"
    "blobs e4 = [(''b1'', glide_blob (Some (glide_ease (3 / 4))) (Some (square_at 30 15)))]"
    unfolding e4_def using glide_frame [OF c3, of 1375] by (simp_all add: glide_step_4)
  have c5: "blobs e5 = [(''b1'', glide_blob None (Some (square_at 100 50)))]"
    unfolding e5_def using glide_frame [OF c4, of 1500] by (simp_all add: glide_step_5)
  have frames: "ease_frames = [e1, e2, e3, e4, e5]"
    by (simp add: ease_frames_def Let_def e1_def e2_def e3_def e4_def e5_def)
  have "ease_target ''b1'' ease_demo = Some \<lparr>pt_x = Fin 20, pt_y = Fin 10\<rparr>"
    by (simp add: ease_target_def c0 map_get_def glide_ease_def)
  moreover have "map (blob_center ''b1'') ease_frames
     = [Some (Fin 100, Fin 50), Some (Fin 90, Fin 45), Some (Fin 60, Fin 30),
        Some (Fin 30, Fin 15), Some (Fin 100, Fin 50)]"
    by (simp add: frames blob_center_def map_get_def c1 c2 c3 c4 c5 square_at_def)
  ultimately show ?thesis by simp
qed

section \<open>The damage set\<close>

text \<open>A rectangle is finite when its four fields are finite numbers. \<open>contains outer inner\<close>
  says that the inner rectangle's extent lies within the outer one's on both axes.\<close>

definition is_fin :: "jsnum \<Rightarrow> bool" where
  "is_fin x = (case x of Fin a \<Rightarrow> True | _ \<Rightarrow> False)"

definition fin_rect :: "Rect \<Rightarrow> bool" where
  "fin_rect r = (is_fin (rect_x r) \<and> is_fin (rect_y r) \<and> is_fin (rect_w r) \<and> is_fin (rect_h r))"




lemma fin_rect_mk [simp]:
  "fin_rect \<lparr>rect_x = Fin x, rect_y = Fin y, rect_w = Fin w, rect_h = Fin h\<rparr>"
  by (simp add: fin_rect_def is_fin_def)











section \<open>The redraw decision of a frame\<close>



definition frame_ready :: "jsnum \<Rightarrow> jsnum \<Rightarrow> FluidBackground \<Rightarrow> FluidBackground" where
  "frame_ready ts dtMs e =
     (let e2 = step_prepare e; res = step_scan ts dtMs e2
      in e2\<lparr>blobs := fst res, needRebuildStatic := (needRebuildStatic e2 \<or> snd (snd res))\<rparr>)"




lemma canvas_step_prepare [simp]: "canvas (step_prepare e) = canvas e"
  by (simp add: step_prepare_def buildStaticLayer_def Let_def)

lemma ready_fields [simp]:
  "canvas (frame_ready ts dtMs e) = canvas e"
  "ctx (frame_ready ts dtMs e) = ctx e"
  "state (frame_ready ts dtMs e) = smooth_pointer (state e)"
  by (simp_all add: frame_ready_def step_prepare_def buildStaticLayer_def Let_def)











section \<open>The damage set covers the footprints\<close>

lemma lastRect_advanceEase [simp]: "b_lastRect (advanceEase dtMs b) = b_lastRect b"
  by (simp add: advanceEase_def classifyBlobStatic_def Let_def split: option.splits)



lemma state_step_prepare [simp]: "state (step_prepare e) = smooth_pointer (state e)"
  by (simp add: step_prepare_def Let_def)


section \<open>A frame on the patch path\<close>

text \<open>A concrete frame for the two theorems above: a blob of diameter 32 on the 200 by 100
  surface with no blur, so that its damage is a small part of the surface; it is eased
  towards (20, 10), a first frame at time 1000 records its rectangle around (100, 50), and
  the frame at time 1125 finds it around (90, 45). The two damage rectangles overlap and
  are merged into one.\<close>

definition small_cfg :: BlobConfig where
  "small_cfg = glide_cfg\<lparr>cfg_diameter := Num (Fin 32)\<rparr>"

definition small_state :: State where
  "small_state = demo_state\<lparr>blurPx := Fin 0\<rparr>"




text \<open>The blob of this scenario as a function of its transition and its last rectangle, its
  rectangle and its damage rectangle around a centre.\<close>

definition small_blob :: "InternalEase option \<Rightarrow> Rect option \<Rightarrow> BlobInternal" where
  "small_blob ea lr =
     (the (created_blob small_cfg (demo_engine\<lparr>state := small_state\<rparr>)))
       \<lparr>b_ease := ea, b_lastRect := lr, b_nextRect := None, b_static := False\<rparr>"

definition small_sprite :: Sprite where
  "small_sprite = the (b_sprite (small_blob None None))"



lemmas small_defs =
  small_blob_def small_sprite_def created_blob_eq small_cfg_def small_state_def glide_cfg_def
  demo_cfg_def demo_engine_def demo_state_def drift_field_def classifyBlobStatic_def
  staticCandidate_def noParallax_def truthy_def rebuildSprite_def Let_def dims_of_def
  parse_defs Math_max_def addBlob_def

lemma small_blob_fields [simp]:
  "b_static (small_blob ea lr) = False"
  "b_ease (small_blob ea lr) = ea"
  "b_lastRect (small_blob ea lr) = lr"
  "b_id (small_blob ea lr) = ''b1''"
  "b_opacity (small_blob ea lr) = Fin 1"
  "b_center (small_blob ea lr) = Fixed (Str ''50%'') (Str ''50%'')"
  "b_parallaxScale (small_blob ea lr) = Fin 1"
  "b_drift (small_blob ea lr) = \<lparr>drift_ax = Fin 0, drift_ay = Fin 0, drift_sx = Fin 0,
      drift_sy = Fin 0, drift_speed = Fin 0\<rparr>"
  "b_breath (small_blob ea lr) = None"
  "b_sprite (small_blob ea lr) = Some small_sprite"
  "sp_width small_sprite = Fin 32" "sp_height small_sprite = Fin 32"
  by (simp_all add: small_defs)

lemma small_state_fields [simp]:
  "smooth_pointer small_state = small_state"
  "damage_pad small_state = Fin 12"
  "parallaxVmax small_state * (st_vMax small_state / Fin 100) = Fin (9 / 5)"
  "dims_of small_state = \<lparr>dims_w = Fin 200, dims_h = Fin 100, dims_vMax = Fin 200\<rparr>"
  "st_px small_state = Fin 0" "st_py small_state = Fin 0" "dpr small_state = Fin 1"
  "alpha small_state = Fin (1 / 2)" "composite small_state = ''source-over''"
  "maxDirtyRects small_state = Fin 16" "fullRedrawThreshold small_state = Fin (55 / 100)"
  "st_w small_state = Fin 200" "st_h small_state = Fin 100"
  by (simp_all add: small_state_def demo_state_def smooth_pointer_def lerp_def damage_pad_def
      Math_max_def dims_of_def)












lemma small_static_draw [simp]: "static_draw s (small_blob ea lr) = []"
  by (simp add: static_draw_def)











end
